theory Spec2Isabelle
  imports Main
begin

section \<open>The GridFS contents manager\<close>

text \<open>
  A shallow embedding of \<^verbatim>\<open>GridFSContentsManager\<close>
  (\<^verbatim>\<open>ipynbstore_gridfs/__init__.py\<close>). The manager keeps no state of its own: every
  method reads and writes two collections of the backing database, the GridFS bucket of
  notebook files and the checkpoint collection. The model passes both explicitly as a
  \<open>store\<close>, and every method returns its result (\<open>Inl\<close> an exception, \<open>Inr\<close> the
  returned value) together with the store it leaves behind, since a method that raises after
  a write leaves the write in place.
\<close>

subsection \<open>Exceptions\<close>

text \<open>
  \<open>HTTPError code reason\<close> is \<^verbatim>\<open>tornado.web.HTTPError\<close> with its status code and its
  \<^verbatim>\<open>reason\<close> keyword (the log message is left out). \<open>NoFile\<close> is
  \<^verbatim>\<open>gridfs.errors.NoFile\<close>; \<open>DuplicateKeyError\<close> and \<open>WriteError\<close> are the
  errors of the database driver; \<open>RecursionError\<close> is what the interpreter raises when
  calls nest deeper than its stack allows; \<open>PyException\<close> stands for any other exception
  raised by a library call.
\<close>

datatype error =
    HTTPError nat "string option"
  | NoFile
  | DuplicateKeyError
  | WriteError
  | RecursionError
  | PyException

subsection \<open>Path helpers\<close>

text \<open>\<^verbatim>\<open>path.strip('/')\<close>: leading and trailing separators removed.\<close>

definition strip :: "string \<Rightarrow> string" where
  "strip p = rev (dropWhile (\<lambda>c. c = CHR ''/'') (rev (dropWhile (\<lambda>c. c = CHR ''/'') p)))"

text \<open>\<^verbatim>\<open>path.endswith(suf)\<close>.\<close>

definition endswith :: "string \<Rightarrow> string \<Rightarrow> bool" where
  "endswith p suf = (take (length suf) (rev p) = rev suf)"

text \<open>\<^verbatim>\<open>path.rsplit('/', 1)[-1]\<close>: what follows the last separator.\<close>

definition rsplit_last :: "string \<Rightarrow> string" where
  "rsplit_last p = rev (takeWhile (\<lambda>c. c \<noteq> CHR ''/'') (rev p))"

text \<open>\<^verbatim>\<open>str(n)\<close> of a non-negative integer: its decimal digits.\<close>

fun str :: "nat \<Rightarrow> string" where
  "str n = (if n < 10 then [''0123456789'' ! n]
            else str (n div 10) @ [''0123456789'' ! (n mod 10)])"

declare str.simps [simp del]

subsection \<open>The GridFS bucket\<close>

text \<open>
  A stored file version: its \<^verbatim>\<open>_id\<close> (an ObjectId, here a number), its
  \<^verbatim>\<open>filename\<close> and its bytes. The bucket lists the versions in upload order, so the
  latest version of a name is the last one carrying it. \<open>next_oid\<close> is the source of
  fresh ObjectIds: \<^verbatim>\<open>put\<close> never reuses one.
\<close>

record 'b grid_file =
  file_id :: nat
  filename :: string
  data :: 'b

record 'b gridfs =
  files :: "'b grid_file list"
  next_oid :: nat

text \<open>\<^verbatim>\<open>fs.list()\<close>: the distinct file names of the bucket.\<close>

definition fs_list :: "'b gridfs \<Rightarrow> string list" where
  "fs_list g = remdups (map filename (files g))"

text \<open>
  The versions stored under a name, oldest first.
  \<^verbatim>\<open>fs.get_version(filename)\<close> and \<^verbatim>\<open>fs.get_last_version(filename)\<close>: the most
  recently uploaded version of the name; \<open>None\<close> is the exception \<open>NoFile\<close>.
\<close>

definition fs_versions :: "'b gridfs \<Rightarrow> string \<Rightarrow> 'b grid_file list" where
  "fs_versions g name = filter (\<lambda>f. filename f = name) (files g)"

definition fs_get_version :: "'b gridfs \<Rightarrow> string \<Rightarrow> 'b grid_file option" where
  "fs_get_version g name =
     (case fs_versions g name of
        [] \<Rightarrow> None
      | f # fs \<Rightarrow> Some (last (f # fs)))"

definition fs_get_last_version :: "'b gridfs \<Rightarrow> string \<Rightarrow> 'b grid_file option" where
  "fs_get_last_version g name = fs_get_version g name"

text \<open>\<^verbatim>\<open>fs.get(file_id)\<close>: the version with this id; \<open>None\<close> is \<open>NoFile\<close>.\<close>

definition fs_get :: "'b gridfs \<Rightarrow> nat \<Rightarrow> 'b grid_file option" where
  "fs_get g i = find (\<lambda>f. file_id f = i) (files g)"

text \<open>\<^verbatim>\<open>fs.put(data, filename=name)\<close>: a new version under a fresh id.\<close>

definition fs_put :: "'b gridfs \<Rightarrow> 'b \<Rightarrow> string \<Rightarrow> 'b gridfs" where
  "fs_put g bytes name =
     \<lparr>files = files g @ [\<lparr>file_id = next_oid g, filename = name, data = bytes\<rparr>],
      next_oid = Suc (next_oid g)\<rparr>"

text \<open>\<^verbatim>\<open>fs.delete(file_id)\<close>: removes the version with this id.\<close>

definition fs_delete :: "'b gridfs \<Rightarrow> nat \<Rightarrow> 'b gridfs" where
  "fs_delete g i = g\<lparr>files := filter (\<lambda>f. file_id f \<noteq> i) (files g)\<rparr>"

text \<open>
  The ids in use were all handed out by \<^verbatim>\<open>put\<close>: they lie below \<open>next_oid\<close>. The
  bucket operations keep this (\<open>fresh_ids_put\<close>, \<open>fresh_ids_delete\<close>).
\<close>

definition fresh_ids :: "'b gridfs \<Rightarrow> bool" where
  "fresh_ids g = list_all (\<lambda>f. file_id f < next_oid g) (files g)"

subsection \<open>The checkpoint collection\<close>

text \<open>
  A checkpoint document as \<^verbatim>\<open>create_checkpoint\<close> writes it: \<open>doc_id\<close> is the
  document's \<^verbatim>\<open>_id\<close>, \<open>cp_path\<close> its \<^verbatim>\<open>path\<close>, \<open>cp\<close> the sequence id (the decimal
  string of a count), \<open>cp_blob\<close> the \<^verbatim>\<open>id\<close> field (the id of the file version the
  checkpoint refers to) and \<open>lastModified\<close> the creation time. The collection lists its
  documents in insertion order.
\<close>

record checkpoint =
  doc_id :: nat
  cp_path :: string
  cp :: string
  cp_blob :: nat
  lastModified :: nat

text \<open>\<^verbatim>\<open>collection.find({'path': path})\<close>.\<close>

definition find_path :: "checkpoint list \<Rightarrow> string \<Rightarrow> checkpoint list" where
  "find_path docs path = filter (\<lambda>c. cp_path c = path) docs"

text \<open>
  \<^verbatim>\<open>collection.update(spec, {'$set': {'_id': chid}}, upsert=True)\<close>, where \<open>spec\<close>
  gives \<^verbatim>\<open>path\<close>, \<^verbatim>\<open>cp\<close>, \<^verbatim>\<open>id\<close> and \<^verbatim>\<open>lastModified\<close>. The database updates
  the first document that matches \<open>spec\<close> in all four fields: setting its \<^verbatim>\<open>_id\<close> to
  the value it has changes nothing, setting it to another value is refused, \<^verbatim>\<open>_id\<close>
  being immutable. When no document matches, it inserts the document made of the fields of
  \<open>spec\<close> and the new \<^verbatim>\<open>_id\<close>; \<^verbatim>\<open>_id\<close> is the collection's unique key, so the
  insertion is refused when a document with this \<^verbatim>\<open>_id\<close> is already there.
\<close>

definition spec_matches :: "string \<Rightarrow> string \<Rightarrow> nat \<Rightarrow> nat \<Rightarrow> checkpoint \<Rightarrow> bool" where
  "spec_matches path cp_id chid last_modified c =
     (cp_path c = path \<and> cp c = cp_id \<and> cp_blob c = chid \<and> lastModified c = last_modified)"

definition update_upsert ::
  "checkpoint list \<Rightarrow> string \<Rightarrow> string \<Rightarrow> nat \<Rightarrow> nat \<Rightarrow> error + checkpoint list" where
  "update_upsert docs path cp_id chid last_modified =
     (case find (spec_matches path cp_id chid last_modified) docs of
        Some c \<Rightarrow> if doc_id c = chid then Inr docs else Inl WriteError
      | None \<Rightarrow>
          if chid \<in> set (map doc_id docs) then Inl DuplicateKeyError
          else Inr (docs @ [\<lparr>doc_id = chid, cp_path = path, cp = cp_id, cp_blob = chid,
                             lastModified = last_modified\<rparr>]))"

text \<open>
  \<^verbatim>\<open>collection.update({'path': old}, {'$set': {'path': new}}, multi=True)\<close>: every
  document of the old path is moved to the new one.
\<close>

definition update_path :: "checkpoint list \<Rightarrow> string \<Rightarrow> string \<Rightarrow> checkpoint list" where
  "update_path docs old_path new_path =
     map (\<lambda>c. if cp_path c = old_path then c\<lparr>cp_path := new_path\<rparr> else c) docs"

subsection \<open>The store\<close>

record 'b store =
  fs :: "'b gridfs"
  checkpoints :: "checkpoint list"

subsection \<open>The model to save\<close>

text \<open>
  The dictionary \<^verbatim>\<open>save\<close> receives: each key may be absent (\<open>None\<close>).
\<close>

record 'c save_model =
  sm_type :: "string option"
  sm_content :: "'c option"
  sm_format :: "string option"
  sm_message :: "string option"

subsection \<open>The host framework\<close>

text \<open>
  The manager calls into the notebook framework and the JSON library. What these calls
  compute is not part of this repository, so they are parameters of the model; \<open>'c\<close> is
  the type of decoded documents and \<open>'b\<close> the type of stored bytes. A call that can raise
  returns an option, \<open>None\<close> standing for the exception.
  \<^item> \<open>from_dict\<close>: \<^verbatim>\<open>nbformat.from_dict\<close>;
  \<^item> \<open>check_and_sign\<close>: whether \<^verbatim>\<open>self.check_and_sign(nb, path)\<close> returns normally;
  \<^item> \<open>dumps_sorted\<close>, \<open>dumps\<close>: \<^verbatim>\<open>json.dumps\<close> with and without
    \<^verbatim>\<open>sort_keys=True\<close>; \<open>loads\<close>: \<^verbatim>\<open>json.loads\<close>;
  \<^item> \<open>nbformat_read\<close>: \<^verbatim>\<open>nbformat.read(f, as_version=4)\<close>;
  \<^item> \<open>mark_trusted_cells\<close>: the document after \<^verbatim>\<open>self.mark_trusted_cells(nb, path)\<close>;
  \<^item> \<open>validation_error\<close>: the message \<^verbatim>\<open>self.validate_notebook_model\<close> stores in the
    model when the document fails validation;
  \<^item> \<open>save_file\<close>, \<open>save_directory\<close>: \<^verbatim>\<open>self._save_file\<close> and
    \<^verbatim>\<open>self._save_directory\<close>, which the class calls and does not define; they act on the
    bucket and return the exception they raise, if any.
  The pre-save hook is the framework's default, which does nothing.
\<close>

record ('c, 'b) host =
  from_dict :: "'c \<Rightarrow> 'c"
  check_and_sign :: "'c \<Rightarrow> bool"
  dumps_sorted :: "'c \<Rightarrow> 'b option"
  dumps :: "'c \<Rightarrow> 'b option"
  loads :: "'b \<Rightarrow> 'c option"
  nbformat_read :: "'b \<Rightarrow> 'c option"
  mark_trusted_cells :: "'c \<Rightarrow> 'c"
  validation_error :: "'c \<Rightarrow> string option"
  save_file :: "string \<Rightarrow> 'c \<Rightarrow> string option \<Rightarrow> 'b gridfs \<Rightarrow> error option \<times> 'b gridfs"
  save_directory ::
    "string \<Rightarrow> 'c save_model \<Rightarrow> string \<Rightarrow> 'b gridfs \<Rightarrow> error option \<times> 'b gridfs"

subsection \<open>Contents models\<close>

text \<open>
  The dictionary a read returns. \<open>m_type\<close> and \<open>m_message\<close> are \<open>None\<close> while the key is
  absent. The content is nothing, a decoded notebook, or for the root directory the list of
  the models of its entries.
\<close>

datatype 'c model =
  Model (m_name: string) (m_path: string) (m_last_modified: nat) (m_created: nat)
        (m_content: "'c content") (m_format: "string option") (m_mimetype: "string option")
        (m_writable: bool) (m_type: "string option") (m_message: "string option")
and 'c content = CNone | CNotebook 'c | CListing "'c model list"

text \<open>What \<^verbatim>\<open>create_checkpoint\<close> returns and \<^verbatim>\<open>list_checkpoints\<close> lists.\<close>

record checkpoint_info =
  cp_info_id :: string
  cp_info_last_modified :: nat

subsection \<open>Existence\<close>

definition file_exists :: "'b store \<Rightarrow> string \<Rightarrow> bool" where
  "file_exists s path =
     (let path = strip path;
          file_collection = fs_list (fs s)
      in if path = [] then False
         else if path \<in> set file_collection then True
         else False)"

definition dir_exists :: "string \<Rightarrow> bool" where
  "dir_exists path = (if path = [] then True else False)"

definition exists_path :: "'b store \<Rightarrow> string \<Rightarrow> bool" where
  "exists_path s path = (let path = strip path in file_exists s path \<or> dir_exists path)"

subsection \<open>Checkpoints\<close>

text \<open>
  \<open>now\<close> is the reading of the clock (\<^verbatim>\<open>datetime.datetime.utcnow()\<close>) during the call.
\<close>

definition create_checkpoint ::
  "nat \<Rightarrow> 'b store \<Rightarrow> string \<Rightarrow> (error + checkpoint_info) \<times> 'b store" where
  "create_checkpoint now s path =
     (let path = strip path in
      case fs_get_version (fs s) path of
        None \<Rightarrow> (Inl NoFile, s)
      | Some notebook \<Rightarrow>
          let chid = file_id notebook;
              cp_id = str (length (find_path (checkpoints s) path));
              last_modified = now
          in (case update_upsert (checkpoints s) path cp_id chid last_modified of
                Inl e \<Rightarrow> (Inl e, s)
              | Inr docs \<Rightarrow>
                  (Inr \<lparr>cp_info_id = cp_id, cp_info_last_modified = last_modified\<rparr>,
                   s\<lparr>checkpoints := docs\<rparr>)))"

definition list_checkpoints :: "'b store \<Rightarrow> string \<Rightarrow> checkpoint_info list" where
  "list_checkpoints s path =
     (let path = strip path in
      map (\<lambda>c. \<lparr>cp_info_id = cp c, cp_info_last_modified = lastModified c\<rparr>)
          (find_path (checkpoints s) path))"

subsection \<open>Reading\<close>

definition base_model :: "nat \<Rightarrow> string \<Rightarrow> 'c model" where
  "base_model now path =
     Model (rsplit_last path) path now now CNone None None True None None"

text \<open>Assignments to the keys of a model.\<close>

definition set_type :: "string \<Rightarrow> 'c model \<Rightarrow> 'c model" where
  "set_type v m =
     (case m of Model n p lm cr c f mt w ty msg \<Rightarrow> Model n p lm cr c f mt w (Some v) msg)"

definition set_content :: "'c content \<Rightarrow> 'c model \<Rightarrow> 'c model" where
  "set_content v m =
     (case m of Model n p lm cr c f mt w ty msg \<Rightarrow> Model n p lm cr v f mt w ty msg)"

definition set_format :: "string \<Rightarrow> 'c model \<Rightarrow> 'c model" where
  "set_format v m =
     (case m of Model n p lm cr c f mt w ty msg \<Rightarrow> Model n p lm cr c (Some v) mt w ty msg)"

definition set_message :: "string \<Rightarrow> 'c model \<Rightarrow> 'c model" where
  "set_message v m =
     (case m of Model n p lm cr c f mt w ty msg \<Rightarrow> Model n p lm cr c f mt w ty (Some v))"

text \<open>
  \<^verbatim>\<open>self.validate_notebook_model(model)\<close>: stores a message in the model when the
  document fails validation, and never raises.
\<close>

definition validate_notebook_model :: "('c, 'b) host \<Rightarrow> 'c \<Rightarrow> 'c model \<Rightarrow> 'c model" where
  "validate_notebook_model h nb m =
     (case validation_error h nb of None \<Rightarrow> m | Some v \<Rightarrow> set_message v m)"

definition read_notebook :: "('c, 'b) host \<Rightarrow> 'b store \<Rightarrow> string \<Rightarrow> error + 'c" where
  "read_notebook h s path =
     (case fs_get_last_version (fs s) path of
        None \<Rightarrow> Inl NoFile
      | Some v \<Rightarrow>
          (case fs_get (fs s) (file_id v) of
             None \<Rightarrow> Inl (HTTPError 400 None)
           | Some f \<Rightarrow>
               (case nbformat_read h (data f) of
                  None \<Rightarrow> Inl (HTTPError 400 None)
                | Some nb \<Rightarrow> Inr nb)))"

definition notebook_model ::
  "('c, 'b) host \<Rightarrow> nat \<Rightarrow> 'b store \<Rightarrow> string \<Rightarrow> bool \<Rightarrow> error + 'c model" where
  "notebook_model h now s path content =
     (let model = set_type ''notebook'' (base_model now path) in
      if content then
        (case read_notebook h s path of
           Inl e \<Rightarrow> Inl e
         | Inr nb0 \<Rightarrow>
             let nb = mark_trusted_cells h nb0;
                 model = set_content (CNotebook nb) model;
                 model = set_format ''json'' model
             in Inr (validate_notebook_model h nb model))
      else Inr model)"

text \<open>
  The loop of \<^verbatim>\<open>_dir_model\<close> appends the model of each name in turn; the first
  exception leaves the loop.
\<close>

fun collect :: "('e + 'a) list \<Rightarrow> 'e + 'a list" where
  "collect [] = Inr []"
| "collect (Inl e # rs) = Inl e"
| "collect (Inr x # rs) = (case collect rs of Inl e \<Rightarrow> Inl e | Inr xs \<Rightarrow> Inr (x # xs))"

text \<open>
  \<^verbatim>\<open>get\<close> and \<^verbatim>\<open>_dir_model\<close> call each other: the model of the root directory holds
  the result of \<^verbatim>\<open>get\<close> for each name of the bucket, and \<^verbatim>\<open>get\<close> of a name that
  strips to the empty string is the root directory again. The first argument is the number of
  nested calls of \<^verbatim>\<open>get\<close> the interpreter's stack still allows.
\<close>

fun get ::
  "nat \<Rightarrow> ('c, 'b) host \<Rightarrow> nat \<Rightarrow> 'b store \<Rightarrow> string \<Rightarrow> bool \<Rightarrow> string option
   \<Rightarrow> error + 'c model" where
  "get 0 h now s path content type = Inl RecursionError"
| "get (Suc d) h now s path content type =
     (let path = strip path in
      if \<not> exists_path s path then Inl (HTTPError 404 None)
      else if path = [] then
        (if type \<noteq> None \<and> type \<noteq> Some ''directory''
         then Inl (HTTPError 400 (Some ''bad type''))
         else
           (let model = set_type ''directory'' (base_model now path) in
            case collect (map (\<lambda>name. get d h now s name content None)
                              (fs_list (fs s))) of
              Inl e \<Rightarrow> Inl e
            | Inr contents \<Rightarrow>
                Inr (set_format ''json'' (set_content (CListing contents) model))))
      else if type = Some ''notebook'' \<or> (type = None \<and> endswith path ''.ipynb'')
        then notebook_model h now s path content
      else Inl (HTTPError 400 (Some ''bad type'')))"

subsection \<open>Deleting\<close>

definition delete :: "'b store \<Rightarrow> string \<Rightarrow> (error + unit) \<times> 'b store" where
  "delete s path =
     (if \<not> file_exists s path then (Inr (), s)
      else
        (let path = strip path in
         case fs_get_version (fs s) path of
           None \<Rightarrow> (Inl NoFile, s)
         | Some gridfile \<Rightarrow> (Inr (), s\<lparr>fs := fs_delete (fs s) (file_id gridfile)\<rparr>)))"

subsection \<open>Saving\<close>

definition save_notebook ::
  "('c, 'b) host \<Rightarrow> 'b store \<Rightarrow> string \<Rightarrow> 'c \<Rightarrow> (error + unit) \<times> 'b store" where
  "save_notebook h s os_path nb =
     (case dumps_sorted h nb of
        None \<Rightarrow> (Inl PyException, s)
      | Some bytes \<Rightarrow> (Inr (), s\<lparr>fs := fs_put (fs s) bytes os_path\<rparr>))"

text \<open>
  The body of the \<^verbatim>\<open>try\<close> statement of \<^verbatim>\<open>save\<close>: the dispatch on the type of the
  model. Reading a missing \<^verbatim>\<open>content\<close> key raises.
\<close>

definition save_dispatch ::
  "('c, 'b) host \<Rightarrow> 'b store \<Rightarrow> 'c save_model \<Rightarrow> string \<Rightarrow> string
   \<Rightarrow> (error + unit) \<times> 'b store" where
  "save_dispatch h s model ty path =
     (if ty = ''notebook'' then
        (case sm_content model of
           None \<Rightarrow> (Inl PyException, s)
         | Some content \<Rightarrow>
             (let nb = from_dict h content in
              if \<not> check_and_sign h nb then (Inl PyException, s)
              else save_notebook h s path nb))
      else if ty = ''file'' then
        (case sm_content model of
           None \<Rightarrow> (Inl PyException, s)
         | Some content \<Rightarrow>
             (case save_file h path content (sm_format model) (fs s) of
                (None, g) \<Rightarrow> (Inr (), s\<lparr>fs := g\<rparr>)
              | (Some e, g) \<Rightarrow> (Inl e, s\<lparr>fs := g\<rparr>)))
      else if ty = ''directory'' then
        (case save_directory h path model path (fs s) of
           (None, g) \<Rightarrow> (Inr (), s\<lparr>fs := g\<rparr>)
         | (Some e, g) \<Rightarrow> (Inl e, s\<lparr>fs := g\<rparr>))
      else (Inl (HTTPError 400 None), s))"

text \<open>
  The handlers of that \<^verbatim>\<open>try\<close>: an \<^verbatim>\<open>HTTPError\<close> is raised again, any other
  exception becomes an \<^verbatim>\<open>HTTPError\<close> 500.
\<close>

definition save_handler :: "error \<Rightarrow> error" where
  "save_handler e = (case e of HTTPError c r \<Rightarrow> HTTPError c r | _ \<Rightarrow> HTTPError 500 None)"

definition save ::
  "nat \<Rightarrow> ('c, 'b) host \<Rightarrow> nat \<Rightarrow> 'b store \<Rightarrow> 'c save_model \<Rightarrow> string
   \<Rightarrow> (error + 'c model) \<times> 'b store" where
  "save d h now s model path =
     (let path = strip path in
      case sm_type model of
        None \<Rightarrow> (Inl (HTTPError 400 None), s)
      | Some ty \<Rightarrow>
          if sm_content model = None \<and> ty \<noteq> ''directory''
          then (Inl (HTTPError 400 None), s)
          else
            (case (if file_exists s path \<and> list_checkpoints s path = []
                   then create_checkpoint now s path
                   else (Inr \<lparr>cp_info_id = [], cp_info_last_modified = 0\<rparr>, s)) of
               (Inl e, s1) \<Rightarrow> (Inl e, s1)
             | (Inr ignored, s1) \<Rightarrow>
                 (case save_dispatch h s1 model ty path of
                    (Inl e, s2) \<Rightarrow> (Inl (save_handler e), s2)
                  | (Inr u, s2) \<Rightarrow>
                      (let validation_message =
                             (if ty = ''notebook'' then
                                (case sm_content model of
                                   None \<Rightarrow> sm_message model
                                 | Some content \<Rightarrow>
                                     (case validation_error h content of
                                        None \<Rightarrow> sm_message model
                                      | Some v \<Rightarrow> Some v))
                              else None)
                       in case get d h now s2 path False None of
                            Inl e \<Rightarrow> (Inl e, s2)
                          | Inr m \<Rightarrow>
                              (case validation_message of
                                 None \<Rightarrow> (Inr m, s2)
                               | Some v \<Rightarrow>
                                   if v = [] then (Inr m, s2)
                                   else (Inr (set_message v m), s2))))))"

subsection \<open>Renaming\<close>

text \<open>
  The body of the \<^verbatim>\<open>try\<close> statement of \<^verbatim>\<open>rename\<close>: the latest version of the old
  path is decoded, encoded again and put under the new path, then the old path is deleted.
\<close>

definition rename_move ::
  "('c, 'b) host \<Rightarrow> 'b store \<Rightarrow> string \<Rightarrow> string \<Rightarrow> (error + unit) \<times> 'b store" where
  "rename_move h s old_path new_path =
     (case fs_get_version (fs s) old_path of
        None \<Rightarrow> (Inl NoFile, s)
      | Some v \<Rightarrow>
          (let grid_file = file_id v in
           case fs_get (fs s) grid_file of
             None \<Rightarrow> (Inl NoFile, s)
           | Some f \<Rightarrow>
               (case loads h (data f) of
                  None \<Rightarrow> (Inl PyException, s)
                | Some j \<Rightarrow>
                    (let nb = from_dict h j in
                     case dumps h nb of
                       None \<Rightarrow> (Inl PyException, s)
                     | Some bytes \<Rightarrow>
                         delete (s\<lparr>fs := fs_put (fs s) bytes new_path\<rparr>) old_path))))"

definition rename ::
  "('c, 'b) host \<Rightarrow> 'b store \<Rightarrow> string \<Rightarrow> string \<Rightarrow> (error + unit) \<times> 'b store" where
  "rename h s old_path new_path =
     (let old_path = strip old_path;
          new_path = strip new_path
      in if new_path = old_path then (Inr (), s)
         else if file_exists s new_path then (Inl (HTTPError 409 None), s)
         else
           (case rename_move h s old_path new_path of
              (Inl e, s1) \<Rightarrow> (Inl (HTTPError 500 None), s1)
            | (Inr u, s1) \<Rightarrow>
                (Inr (), s1\<lparr>checkpoints := update_path (checkpoints s1) old_path new_path\<rparr>)))"

subsection \<open>A concrete host and concrete stores\<close>

text \<open>
  A host for running the manager on concrete inputs: documents and bytes are strings, the
  codec leaves them as they are, every document is valid and trusted, and the file writer
  puts the raw content into the bucket.
\<close>

definition example_host :: "(string, string) host" where
  "example_host =
     \<lparr>from_dict = (\<lambda>c. c),
      check_and_sign = (\<lambda>c. True),
      dumps_sorted = (\<lambda>c. Some c),
      dumps = (\<lambda>c. Some c),
      loads = (\<lambda>b. Some b),
      nbformat_read = (\<lambda>b. Some b),
      mark_trusted_cells = (\<lambda>c. c),
      validation_error = (\<lambda>c. None),
      save_file = (\<lambda>path content format g. (None, fs_put g content path)),
      save_directory = (\<lambda>path model path' g. (None, g))\<rparr>"

definition empty_store :: "string store" where
  "empty_store = \<lparr>fs = \<lparr>files = [], next_oid = 0\<rparr>, checkpoints = []\<rparr>"

definition notebook_of :: "string \<Rightarrow> string save_model" where
  "notebook_of c =
     \<lparr>sm_type = Some ''notebook'', sm_content = Some c, sm_format = None, sm_message = None\<rparr>"

definition file_of :: "string \<Rightarrow> string save_model" where
  "file_of c =
     \<lparr>sm_type = Some ''file'', sm_content = Some c, sm_format = Some ''text'',
      sm_message = None\<rparr>"

text \<open>The store after two saves of a notebook at the same path; see \<open>two_saves\<close>.\<close>

definition two_versions :: "string store" where
  "two_versions =
     \<lparr>fs = \<lparr>files = [\<lparr>file_id = 0, filename = ''a.ipynb'', data = ''n1''\<rparr>,
                      \<lparr>file_id = 1, filename = ''a.ipynb'', data = ''n2''\<rparr>],
            next_oid = 2\<rparr>,
      checkpoints = [\<lparr>doc_id = 0, cp_path = ''a.ipynb'', cp = ''0'', cp_blob = 0,
                      lastModified = 6\<rparr>]\<rparr>"

text \<open>The store after one save and one explicit checkpoint; see \<open>save_then_checkpoint\<close>.\<close>

definition one_checkpoint :: "string store" where
  "one_checkpoint =
     \<lparr>fs = \<lparr>files = [\<lparr>file_id = 0, filename = ''a.ipynb'', data = ''n1''\<rparr>], next_oid = 1\<rparr>,
      checkpoints = [\<lparr>doc_id = 0, cp_path = ''a.ipynb'', cp = ''0'', cp_blob = 0,
                      lastModified = 8\<rparr>]\<rparr>"

section \<open>Properties\<close>

subsection \<open>Paths\<close>

lemma strip_strip [simp]: "strip (strip p) = strip p"
proof -
  let ?P = "\<lambda>c. c = CHR ''/''"
  define q where "q = dropWhile ?P p"
  define r where "r = rev (dropWhile ?P (rev q))"
  have q_split: "q = r @ rev (takeWhile ?P (rev q))"
    unfolding r_def by (metis rev_append rev_rev_ident takeWhile_dropWhile_id)
  have hdq: "q \<noteq> [] \<Longrightarrow> \<not> ?P (hd q)"
    unfolding q_def by (rule hd_dropWhile)
  have "dropWhile ?P r = r"
  proof (cases r)
    case Nil then show ?thesis by simp
  next
    case (Cons a as)
    have "r \<noteq> []" using Cons by simp
    with q_split have "q \<noteq> []" "hd q = hd r"
      by (metis append_is_Nil_conv, metis hd_append2)
    then have "q \<noteq> []" "hd q = a" using Cons by simp_all
    with hdq have "\<not> ?P a" by auto
    with Cons show ?thesis by simp
  qed
  moreover have "dropWhile ?P (rev r) = rev r"
    unfolding r_def by simp
  ultimately show ?thesis
    unfolding strip_def q_def[symmetric] r_def[symmetric] by simp
qed

lemma endswith_nonempty: "endswith p ''.ipynb'' \<Longrightarrow> p \<noteq> []"
  by (auto simp add: endswith_def)

lemma file_exists_strip [simp]: "file_exists s (strip p) = file_exists s p"
  by (simp add: file_exists_def)

lemma exists_path_strip [simp]: "exists_path s (strip p) = exists_path s p"
  by (simp add: exists_path_def)

lemma list_checkpoints_strip [simp]: "list_checkpoints s (strip p) = list_checkpoints s p"
  by (simp add: list_checkpoints_def)

lemma create_checkpoint_strip [simp]: "create_checkpoint now s (strip p) = create_checkpoint now s p"
  by (simp add: create_checkpoint_def)

lemma get_strip: "get d h now s (strip p) content type = get d h now s p content type"
  by (cases d) simp_all

subsection \<open>The concrete stores are reachable\<close>

lemma two_saves:
  "snd (save 2 example_host 6
          (snd (save 2 example_host 5 empty_store (notebook_of ''n1'') ''a.ipynb''))
          (notebook_of ''n2'') ''a.ipynb'') = two_versions"
  by code_simp

lemma save_then_checkpoint:
  "snd (create_checkpoint 8
          (snd (save 2 example_host 5 empty_store (notebook_of ''n1'') ''a.ipynb''))
          ''a.ipynb'') = one_checkpoint"
  by code_simp

subsection \<open>The bucket\<close>

lemma fresh_ids_put: "fresh_ids g \<Longrightarrow> fresh_ids (fs_put g b n)"
  by (auto simp add: fresh_ids_def fs_put_def list_all_iff)

lemma fresh_ids_delete: "fresh_ids g \<Longrightarrow> fresh_ids (fs_delete g i)"
  by (auto simp add: fresh_ids_def fs_delete_def list_all_iff)

lemma fs_get_version_last:
  "fs_get_version g name
     = (if fs_versions g name = [] then None else Some (last (fs_versions g name)))"
  by (cases "fs_versions g name") (simp_all add: fs_get_version_def)

lemma fs_versions_put:
  "fs_versions (fs_put g b n) name
     = fs_versions g name @
       (if n = name then [\<lparr>file_id = next_oid g, filename = n, data = b\<rparr>] else [])"
  by (simp add: fs_versions_def fs_put_def)

lemma fs_get_version_put:
  "fs_get_version (fs_put g b n) n = Some \<lparr>file_id = next_oid g, filename = n, data = b\<rparr>"
  by (simp add: fs_get_version_last fs_versions_put)

lemma find_append_None:
  "find P xs = None \<Longrightarrow> find P (xs @ ys) = find P ys"
  by (induction xs) (auto split: if_splits)

lemma fs_get_put:
  assumes "fresh_ids g"
  shows "fs_get (fs_put g b n) (next_oid g)
           = Some \<lparr>file_id = next_oid g, filename = n, data = b\<rparr>"
proof -
  from assms have "find (\<lambda>f. file_id f = next_oid g) (files g) = None"
    by (auto simp add: fresh_ids_def find_None_iff list_all_iff)
  then show ?thesis
    by (simp add: fs_get_def fs_put_def find_append_None)
qed

lemma fs_list_put: "n \<in> set (fs_list (fs_put g b n))"
  by (simp add: fs_list_def fs_put_def)

subsection \<open>Reading\<close>

lemma get_not_found:
  "strip p \<noteq> [] \<Longrightarrow> strip p \<notin> set (fs_list (fs s)) \<Longrightarrow>
   get (Suc d) h now s p content type = Inl (HTTPError 404 None)"
  by (simp add: exists_path_def file_exists_def dir_exists_def Let_def)

lemma get_bad_type:
  "exists_path s p \<Longrightarrow> strip p \<noteq> [] \<Longrightarrow> \<not> endswith (strip p) ''.ipynb'' \<Longrightarrow>
   type \<noteq> Some ''notebook'' \<Longrightarrow>
   get (Suc d) h now s p content type = Inl (HTTPError 400 (Some ''bad type''))"
  by (simp add: Let_def)

lemma get_not_notebook_fails:
  "strip p \<noteq> [] \<Longrightarrow> \<not> endswith (strip p) ''.ipynb'' \<Longrightarrow> 
   get d h now s p content None \<noteq> Inr m"
  by (cases d) (simp_all add: Let_def)

lemma m_name_set_message [simp]: "m_name (set_message v m) = m_name m"
  by (cases m) (simp add: set_message_def)

lemma m_type_set_message [simp]: "m_type (set_message v m) = m_type m"
  by (cases m) (simp add: set_message_def)

lemma m_name_validate [simp]: "m_name (validate_notebook_model h nb m) = m_name m"
  by (simp add: validate_notebook_model_def split: option.splits)

lemma m_type_validate [simp]: "m_type (validate_notebook_model h nb m) = m_type m"
  by (simp add: validate_notebook_model_def split: option.splits)

lemma notebook_model_read:
  "read_notebook h s path = Inr nb \<Longrightarrow>
   \<exists>e. notebook_model h now s path True = Inr e \<and> m_name e = rsplit_last path \<and>
       m_type e = Some ''notebook''"
  by (simp add: notebook_model_def Let_def base_model_def set_type_def set_content_def
      set_format_def)

lemma read_notebook_put:
  assumes "fresh_ids (fs s)" and "fs s' = fs_put (fs s) b n" and "nbformat_read h b = Some nb"
  shows "read_notebook h s' n = Inr nb"
  using assms
  by (simp add: read_notebook_def fs_get_last_version_def fs_get_version_put fs_get_put)

text \<open>
  C8, as stated, fails at the root: no file was ever saved at the empty path, yet it exists
  and \<^verbatim>\<open>get\<close> returns the directory model.
\<close>

theorem get_root_counterexample:
  "exists_path empty_store [] \<and> [] \<notin> set (fs_list (fs empty_store)) \<and>
   get 1 example_host 0 empty_store [] True None
     = Inr (Model [] [] 0 0 (CListing []) (Some ''json'') None True (Some ''directory'') None)"
  by (simp add: exists_path_def file_exists_def dir_exists_def empty_store_def fs_list_def
        strip_def base_model_def set_type_def set_content_def set_format_def rsplit_last_def)

text \<open>
  C8, amended. For every path that is not the root once stripped and has no stored version,
  \<^verbatim>\<open>exists\<close> is false and \<^verbatim>\<open>get\<close> raises \<^verbatim>\<open>HTTPError\<close> 404. For every
  existing path that is not the root, whose stripped form does not end with
  \<^verbatim>\<open>.ipynb\<close> and that is requested with a type other than \<^verbatim>\<open>notebook\<close> (or
  with none), \<^verbatim>\<open>get\<close> raises \<^verbatim>\<open>HTTPError\<close> 400 with reason
  \<^verbatim>\<open>bad type\<close>: no file model is returned.
\<close>

theorem get_errors:
  "(strip p \<noteq> [] \<and> strip p \<notin> set (fs_list (fs s)) \<longrightarrow>
      \<not> exists_path s p \<and> get (Suc d) h now s p content type = Inl (HTTPError 404 None))
   \<and> (exists_path s p \<and> strip p \<noteq> [] \<and> \<not> endswith (strip p) ''.ipynb'' \<and>
        type \<noteq> Some ''notebook'' \<longrightarrow>
      get (Suc d) h now s p content type = Inl (HTTPError 400 (Some ''bad type'')))"
proof (intro conjI impI)
  assume a: "strip p \<noteq> [] \<and> strip p \<notin> set (fs_list (fs s))"
  then show "\<not> exists_path s p"
    by (simp add: exists_path_def file_exists_def dir_exists_def Let_def)
  from a show "get (Suc d) h now s p content type = Inl (HTTPError 404 None)"
    by (intro get_not_found) simp_all
next
  assume "exists_path s p \<and> strip p \<noteq> [] \<and> \<not> endswith (strip p) ''.ipynb'' \<and>
        type \<noteq> Some ''notebook''"
  then show "get (Suc d) h now s p content type = Inl (HTTPError 400 (Some ''bad type''))"
    by (intro get_bad_type) simp_all
qed

theorem get_errors_witness:
  "\<not> exists_path two_versions ''missing.ipynb'' \<and>
   get 1 example_host 0 two_versions ''missing.ipynb'' True None = Inl (HTTPError 404 None) \<and>
   get 1 example_host 0
     (snd (save 2 example_host 5 empty_store (notebook_of ''n1'') ''notes'')) ''notes'' True
     (Some ''file'')
     = Inl (HTTPError 400 (Some ''bad type''))"
proof -
  let ?s = "snd (save 2 example_host 5 empty_store (notebook_of ''n1'') ''notes'')"
  have a: "strip ''missing.ipynb'' \<noteq> [] \<and>
           strip ''missing.ipynb'' \<notin> set (fs_list (fs two_versions))"
    by code_simp
  have b: "exists_path ?s ''notes'' \<and> strip ''notes'' \<noteq> [] \<and>
           \<not> endswith (strip ''notes'') ''.ipynb'' \<and> Some ''file'' \<noteq> Some ''notebook''"
    by code_simp
  from a get_errors [where p = "''missing.ipynb''" and s = two_versions and d = 0
                       and h = example_host and now = 0 and content = True and type = None]
  have "\<not> exists_path two_versions ''missing.ipynb'' \<and>
        get 1 example_host 0 two_versions ''missing.ipynb'' True None = Inl (HTTPError 404 None)"
    by simp
  moreover
  from b get_errors [where p = "''notes''" and s = ?s and d = 0 and h = example_host and now = 0
                       and content = True and type = "Some ''file''"]
  have "get 1 example_host 0 ?s ''notes'' True (Some ''file'')
          = Inl (HTTPError 400 (Some ''bad type''))"
    by simp
  ultimately show ?thesis by simp
qed

subsection \<open>Deleting\<close>

lemma delete_absent: "\<not> file_exists s p \<Longrightarrow> delete s p = (Inr (), s)"
  by (simp add: delete_def)

lemma delete_single_version:
  assumes "fs_versions (fs s) (strip p) = [v]"
  shows "fst (delete s p) = Inr () \<and> \<not> file_exists (snd (delete s p)) p"
proof (cases "file_exists s p")
  case False
  then show ?thesis by (simp add: delete_def)
next
  case True
  from assms have v: "fs_get_version (fs s) (strip p) = Some v"
    by (simp add: fs_get_version_def)
  have "\<And>f. f \<in> set (files (fs s)) \<Longrightarrow> filename f = strip p \<Longrightarrow> f = v"
  proof -
    fix f assume "f \<in> set (files (fs s))" "filename f = strip p"
    then have "f \<in> set (fs_versions (fs s) (strip p))" by (simp add: fs_versions_def)
    with assms show "f = v" by simp
  qed
  then have "strip p \<notin> set (fs_list (fs_delete (fs s) (file_id v)))"
    by (auto simp add: fs_list_def fs_delete_def)
  with True v show ?thesis
    by (simp add: delete_def file_exists_def Let_def)
qed

text \<open>
  C2. \<^verbatim>\<open>delete\<close> removes the latest version only. On a path saved twice it returns
  normally, the first version stays in the bucket and the path still exists.
\<close>

theorem delete_latest_only:
  "file_exists two_versions ''a.ipynb'' \<and>
   delete two_versions ''a.ipynb''
     = (Inr (), two_versions\<lparr>fs := \<lparr>files = [\<lparr>file_id = 0, filename = ''a.ipynb'', data = ''n1''\<rparr>],
                                     next_oid = 2\<rparr>\<rparr>) \<and>
   file_exists (snd (delete two_versions ''a.ipynb'')) ''a.ipynb''"
  by code_simp

subsection \<open>Renaming\<close>

text \<open>
  C10. When the old and the new path are the same string once leading and trailing separators
  are stripped, \<^verbatim>\<open>rename\<close> returns normally and leaves the bucket and the checkpoint
  collection as they were, whether or not the path exists.
\<close>

theorem rename_same_path_noop:
  "strip old_path = strip new_path \<Longrightarrow> rename h s old_path new_path = (Inr (), s)"
  by (simp add: rename_def)

theorem rename_same_path_noop_witness:
  "strip ''/nothing.ipynb'' = strip ''nothing.ipynb/'' \<and>
   rename example_host two_versions ''/nothing.ipynb'' ''nothing.ipynb/'' = (Inr (), two_versions)"
  using rename_same_path_noop [of "''/nothing.ipynb''" "''nothing.ipynb/''" example_host two_versions]
  by (simp add: strip_def)




text \<open>
  C3. \<^verbatim>\<open>rename\<close> removes the old path through \<^verbatim>\<open>delete\<close>, hence its latest
  version only. Renaming a path saved twice to a free path succeeds, and the old path still
  exists afterwards.
\<close>

theorem rename_keeps_old_version:
  "file_exists two_versions ''a.ipynb'' \<and> \<not> file_exists two_versions ''b.ipynb'' \<and>
   fst (rename example_host two_versions ''a.ipynb'' ''b.ipynb'') = Inr () \<and>
   file_exists (snd (rename example_host two_versions ''a.ipynb'' ''b.ipynb'')) ''a.ipynb''"
  by code_simp

subsection \<open>Saving\<close>

lemma create_checkpoint_fs: "create_checkpoint now s p = (r, s') \<Longrightarrow> fs s' = fs s"
  by (auto simp add: create_checkpoint_def Let_def split: option.splits sum.splits)

lemma save_dispatch_checkpoints:
  "save_dispatch h s model ty path = (r, s') \<Longrightarrow> checkpoints s' = checkpoints s"
  by (auto simp add: save_dispatch_def save_notebook_def Let_def
      split: option.splits if_splits prod.splits)

lemma save_Inr:
  assumes "save d h now s model p = (Inr m, s')"
  shows "\<exists>ty s1 m0.
           sm_type model = Some ty \<and>
           (if file_exists s p \<and> list_checkpoints s p = []
            then \<exists>i. create_checkpoint now s p = (Inr i, s1) else s1 = s) \<and>
           save_dispatch h s1 model ty (strip p) = (Inr (), s') \<and>
           get d h now s' p False None = Inr m0"
proof -
  from assms obtain ty where ty: "sm_type model = Some ty"
    by (cases "sm_type model") (simp_all add: save_def Let_def)
  define pre where "pre = (if file_exists s p \<and> list_checkpoints s p = []
                   then create_checkpoint now s p
                   else (Inr \<lparr>cp_info_id = [], cp_info_last_modified = 0\<rparr>, s))"
  obtain r1 s1 where pre_eq: "pre = (r1, s1)" by (cases pre)
  obtain r2 s2 where disp: "save_dispatch h s1 model ty (strip p) = (r2, s2)"
    by (cases "save_dispatch h s1 model ty (strip p)")
  from assms ty pre_eq have r1: "\<exists>i. r1 = Inr i"
    by (cases r1) (auto simp add: save_def Let_def pre_def split: if_splits)
  from assms ty pre_eq r1 disp have r2: "r2 = Inr ()"
    by (cases r2) (auto simp add: save_def Let_def pre_def split: if_splits)
  from assms ty pre_eq r1 disp r2 have s': "s' = s2"
    by (auto simp add: save_def Let_def pre_def split: if_splits sum.splits option.splits)
  from assms ty pre_eq r1 disp r2 have g: "\<exists>m0. get d h now s2 (strip p) False None = Inr m0"
    by (cases "get d h now s2 (strip p) False None")
       (auto simp add: save_def Let_def pre_def split: if_splits)
  from pre_eq r1 have c: "(if file_exists s p \<and> list_checkpoints s p = []
            then \<exists>i. create_checkpoint now s p = (Inr i, s1) else s1 = s)"
    by (auto simp add: pre_def split: if_splits)
  from ty c disp r2 s' g show ?thesis by (auto simp add: get_strip)
qed

lemma save_notebook_Inr:
  assumes "save d h now s model p = (Inr m, s')"
    and "sm_type model = Some ''notebook''" and "sm_content model = Some c"
  shows "\<exists>b. dumps_sorted h (from_dict h c) = Some b \<and> fs s' = fs_put (fs s) b (strip p)"
proof -
  from save_Inr [OF assms(1)] assms(2) obtain s1 where
    pre: "if file_exists s p \<and> list_checkpoints s p = []
          then \<exists>i. create_checkpoint now s p = (Inr i, s1) else s1 = s"
    and disp: "save_dispatch h s1 model ''notebook'' (strip p) = (Inr (), s')"
    by auto
  from pre have "fs s1 = fs s"
    by (auto split: if_splits dest: create_checkpoint_fs)
  with disp assms(3) show ?thesis
    by (auto simp add: save_dispatch_def save_notebook_def Let_def
        split: if_splits option.splits)
qed

lemma update_upsert_path:
  "update_upsert docs path cp_id chid lm = Inr docs' \<Longrightarrow> find_path docs' path \<noteq> []"
proof (cases "find (spec_matches path cp_id chid lm) docs")
  case None
  assume "update_upsert docs path cp_id chid lm = Inr docs'"
  with None have "docs' = docs @ [\<lparr>doc_id = chid, cp_path = path, cp = cp_id, cp_blob = chid,
                             lastModified = lm\<rparr>]"
    by (auto simp add: update_upsert_def split: if_splits)
  then show ?thesis by (simp add: find_path_def)
next
  case (Some c)
  assume "update_upsert docs path cp_id chid lm = Inr docs'"
  with Some have d: "docs' = docs"
    by (auto simp add: update_upsert_def split: if_splits)
  from Some have "c \<in> set docs" "cp_path c = path"
    by (auto simp add: find_Some_iff spec_matches_def)
  then have "c \<in> set (find_path docs path)" by (simp add: find_path_def)
  with d show ?thesis by auto
qed

lemma create_checkpoint_listed:
  "create_checkpoint now s p = (Inr i, s') \<Longrightarrow> list_checkpoints s' p \<noteq> []"
  by (auto simp add: create_checkpoint_def list_checkpoints_def Let_def
      split: option.splits sum.splits dest: update_upsert_path)

text \<open>
  C1, as stated, fails: the first save of a path in an empty store succeeds and leaves the
  path without a checkpoint.
\<close>

theorem first_save_no_checkpoint:
  "\<not> file_exists empty_store ''a.ipynb'' \<and>
   save 2 example_host 5 empty_store (notebook_of ''n1'') ''a.ipynb''
     = (Inr (Model ''a.ipynb'' ''a.ipynb'' 5 5 CNone None None True (Some ''notebook'') None),
        \<lparr>fs = \<lparr>files = [\<lparr>file_id = 0, filename = ''a.ipynb'', data = ''n1''\<rparr>], next_oid = 1\<rparr>,
         checkpoints = []\<rparr>) \<and>
   list_checkpoints (snd (save 2 example_host 5 empty_store (notebook_of ''n1'') ''a.ipynb''))
     ''a.ipynb'' = []"
  by code_simp

text \<open>
  C1, amended. After a successful \<^verbatim>\<open>save\<close> at a path that already had a stored version
  (a second or later save), \<^verbatim>\<open>list_checkpoints\<close> returns at least one record for the
  path. A successful \<^verbatim>\<open>save\<close> at a path without a stored version (a first save) creates
  no checkpoint: the path lists the records it listed before.
\<close>

theorem save_checkpoints:
  assumes "save d h now s model p = (Inr m, s')"
  shows "(file_exists s p \<longrightarrow> list_checkpoints s' p \<noteq> []) \<and>
         (\<not> file_exists s p \<longrightarrow> list_checkpoints s' p = list_checkpoints s p)"
proof -
  from save_Inr [OF assms] obtain ty s1 where
    pre: "if file_exists s p \<and> list_checkpoints s p = []
          then \<exists>i. create_checkpoint now s p = (Inr i, s1) else s1 = s"
    and disp: "save_dispatch h s1 model ty (strip p) = (Inr (), s')"
    by blast
  from disp have cps: "checkpoints s' = checkpoints s1"
    by (rule save_dispatch_checkpoints)
  then have eq: "list_checkpoints s' p = list_checkpoints s1 p"
    by (simp add: list_checkpoints_def)
  show ?thesis
  proof (intro conjI impI)
    assume ex: "file_exists s p"
    show "list_checkpoints s' p \<noteq> []"
    proof (cases "list_checkpoints s p = []")
      case True
      with ex pre obtain i where "create_checkpoint now s p = (Inr i, s1)" by auto
      then have "list_checkpoints s1 p \<noteq> []" by (rule create_checkpoint_listed)
      with eq show ?thesis by simp
    next
      case False
      with pre have "s1 = s" by simp
      with eq False show ?thesis by simp
    qed
  next
    assume "\<not> file_exists s p"
    with pre have "s1 = s" by simp
    with eq show "list_checkpoints s' p = list_checkpoints s p" by simp
  qed
qed

theorem save_checkpoints_witness:
  "list_checkpoints two_versions ''a.ipynb'' \<noteq> [] \<and>
   list_checkpoints
     (snd (save 2 example_host 5 empty_store (notebook_of ''n1'') ''a.ipynb'')) ''a.ipynb''
     = list_checkpoints empty_store ''a.ipynb''"
proof -
  let ?s1 = "snd (save 2 example_host 5 empty_store (notebook_of ''n1'') ''a.ipynb'')"
  have s1: "save 2 example_host 5 empty_store (notebook_of ''n1'') ''a.ipynb''
              = (Inr (Model ''a.ipynb'' ''a.ipynb'' 5 5 CNone None None True (Some ''notebook'') None),
                 ?s1)"
    by code_simp
  have s2: "save 2 example_host 6 ?s1 (notebook_of ''n2'') ''a.ipynb''
              = (Inr (Model ''a.ipynb'' ''a.ipynb'' 6 6 CNone None None True (Some ''notebook'') None),
                 two_versions)"
    by code_simp
  have e1: "\<not> file_exists empty_store ''a.ipynb''" by code_simp
  have e2: "file_exists ?s1 ''a.ipynb''" by code_simp
  from save_checkpoints [OF s1] save_checkpoints [OF s2] e1 e2 show ?thesis by blast
qed

text \<open>
  C4. \<^verbatim>\<open>save\<close> of a model of type \<^verbatim>\<open>file\<close> with content, at the path
  \<^verbatim>\<open>notes.txt\<close>, never returns a model, whatever the file writer of the host does: the
  closing \<^verbatim>\<open>get\<close> raises for a path that does not end with \<^verbatim>\<open>.ipynb\<close>. With a
  writer that stores the raw content, the content is stored and \<^verbatim>\<open>save\<close> raises
  \<^verbatim>\<open>HTTPError\<close> 400.
\<close>

theorem save_file_raises:
  "fst (save d h now s \<lparr>sm_type = Some ''file'', sm_content = Some c, sm_format = f,
                         sm_message = msg\<rparr> ''notes.txt'') \<noteq> Inr m \<and>
   save 2 example_host 5 empty_store (file_of ''hello'') ''notes.txt''
     = (Inl (HTTPError 400 (Some ''bad type'')),
        \<lparr>fs = \<lparr>files = [\<lparr>file_id = 0, filename = ''notes.txt'', data = ''hello''\<rparr>],
               next_oid = 1\<rparr>,
         checkpoints = []\<rparr>)"
proof
  let ?model = "\<lparr>sm_type = Some ''file'', sm_content = Some c, sm_format = f, sm_message = msg\<rparr>"
  show "fst (save d h now s ?model ''notes.txt'') \<noteq> Inr m"
  proof
    assume "fst (save d h now s ?model ''notes.txt'') = Inr m"
    then have "save d h now s ?model ''notes.txt''
                 = (Inr m, snd (save d h now s ?model ''notes.txt''))"
      by (metis prod.collapse)
    from save_Inr [OF this] obtain s' m0 where
      "get d h now s' ''notes.txt'' False None = Inr m0" by blast
    moreover have "strip ''notes.txt'' \<noteq> []" "\<not> endswith (strip ''notes.txt'') ''.ipynb''"
      by (simp_all add: strip_def endswith_def)
    ultimately show False using get_not_notebook_fails by blast
  qed
next
  show "save 2 example_host 5 empty_store (file_of ''hello'') ''notes.txt''
     = (Inl (HTTPError 400 (Some ''bad type'')),
        \<lparr>fs = \<lparr>files = [\<lparr>file_id = 0, filename = ''notes.txt'', data = ''hello''\<rparr>],
               next_oid = 1\<rparr>,
         checkpoints = []\<rparr>)"
    by code_simp
qed

subsection \<open>Checkpoints\<close>

lemma find_None_blob:
  "chid \<notin> set (map cp_blob docs) \<Longrightarrow> find (spec_matches path cp_id chid lm) docs = None"
  by (auto simp add: find_None_iff spec_matches_def)

text \<open>
  What \<^verbatim>\<open>create_checkpoint\<close> does where the collection accepts the record: it raises
  when the path has no stored version, and where no checkpoint record is keyed by the latest
  version of the path or refers to it, it appends a record whose sequence id is the decimal string of the
  number of records the path lists, with the current time as its timestamp, and returns the
  sequence id and the timestamp.
\<close>

lemma create_checkpoint_result:
  "(fs_versions (fs s) (strip p) = [] \<longrightarrow> create_checkpoint now s p = (Inl NoFile, s)) \<and>
   (fs_get_version (fs s) (strip p) = Some v \<and>
    file_id v \<notin> set (map doc_id (checkpoints s)) \<and>
    file_id v \<notin> set (map cp_blob (checkpoints s)) \<longrightarrow>
      create_checkpoint now s p
        = (Inr \<lparr>cp_info_id = str (length (list_checkpoints s p)), cp_info_last_modified = now\<rparr>,
           s\<lparr>checkpoints := checkpoints s @
                [\<lparr>doc_id = file_id v, cp_path = strip p,
                  cp = str (length (list_checkpoints s p)), cp_blob = file_id v,
                  lastModified = now\<rparr>]\<rparr>))"
proof (intro conjI impI)
  assume "fs_versions (fs s) (strip p) = []"
  then show "create_checkpoint now s p = (Inl NoFile, s)"
    by (simp add: create_checkpoint_def fs_get_version_def)
next
  assume a: "fs_get_version (fs s) (strip p) = Some v \<and>
    file_id v \<notin> set (map doc_id (checkpoints s)) \<and>
    file_id v \<notin> set (map cp_blob (checkpoints s))"
  have n: "length (list_checkpoints s p) = length (find_path (checkpoints s) (strip p))"
    by (simp add: list_checkpoints_def)
  from a have "find (spec_matches (strip p) (str (length (find_path (checkpoints s) (strip p))))
                 (file_id v) now) (checkpoints s) = None"
    by (intro find_None_blob) simp
  with a show "create_checkpoint now s p
        = (Inr \<lparr>cp_info_id = str (length (list_checkpoints s p)), cp_info_last_modified = now\<rparr>,
           s\<lparr>checkpoints := checkpoints s @
                [\<lparr>doc_id = file_id v, cp_path = strip p,
                  cp = str (length (list_checkpoints s p)), cp_blob = file_id v,
                  lastModified = now\<rparr>]\<rparr>)"
    unfolding n by (simp add: create_checkpoint_def update_upsert_def Let_def)
qed

lemma create_checkpoint_result_example:
  "create_checkpoint 3 empty_store ''a.ipynb'' = (Inl NoFile, empty_store) \<and>
   create_checkpoint 7 two_versions ''a.ipynb''
     = (Inr \<lparr>cp_info_id = ''1'', cp_info_last_modified = 7\<rparr>,
        two_versions\<lparr>checkpoints := checkpoints two_versions @
           [\<lparr>doc_id = 1, cp_path = ''a.ipynb'', cp = ''1'', cp_blob = 1, lastModified = 7\<rparr>]\<rparr>)"
proof -
  have h1: "fs_versions (fs empty_store) (strip ''a.ipynb'') = []" by code_simp
  have h2: "fs_get_version (fs two_versions) (strip ''a.ipynb'')
              = Some \<lparr>file_id = 1, filename = ''a.ipynb'', data = ''n2''\<rparr> \<and>
            file_id \<lparr>file_id = 1, filename = ''a.ipynb'', data = ''n2''\<rparr>
              \<notin> set (map doc_id (checkpoints two_versions)) \<and>
            file_id \<lparr>file_id = 1, filename = ''a.ipynb'', data = ''n2''\<rparr>
              \<notin> set (map cp_blob (checkpoints two_versions))"
    by code_simp
  have e: "str (length (list_checkpoints two_versions ''a.ipynb'')) = ''1''" "strip ''a.ipynb'' = ''a.ipynb''"
    by code_simp+
  from create_checkpoint_result [where s = empty_store and p = "''a.ipynb''" and now = 3] h1
  have "create_checkpoint 3 empty_store ''a.ipynb'' = (Inl NoFile, empty_store)" by blast
  moreover
  from create_checkpoint_result
         [where s = two_versions and p = "''a.ipynb''" and now = 7
            and v = "\<lparr>file_id = 1, filename = ''a.ipynb'', data = ''n2''\<rparr>"] h2
  have "create_checkpoint 7 two_versions ''a.ipynb''
     = (Inr \<lparr>cp_info_id = ''1'', cp_info_last_modified = 7\<rparr>,
        two_versions\<lparr>checkpoints := checkpoints two_versions @
           [\<lparr>doc_id = 1, cp_path = ''a.ipynb'', cp = ''1'', cp_blob = 1, lastModified = 7\<rparr>]\<rparr>)"
    unfolding e by simp
  ultimately show ?thesis by simp
qed

text \<open>
  C7. \<^verbatim>\<open>create_checkpoint\<close> called a second time on a path whose latest version already
  has a checkpoint does not create a record with the next sequence id: the filter of its
  upsert holds the new count and the fresh timestamp, so no record matches, the insertion
  under the \<^verbatim>\<open>_id\<close> of the first record is refused and the call raises
  \<^verbatim>\<open>DuplicateKeyError\<close>, leaving the collection as it was.
\<close>

theorem checkpoint_twice_refused:
  "fs_get_version (fs one_checkpoint) ''a.ipynb''
     = Some \<lparr>file_id = 0, filename = ''a.ipynb'', data = ''n1''\<rparr> \<and>
   create_checkpoint 9 one_checkpoint ''a.ipynb'' = (Inl DuplicateKeyError, one_checkpoint)"
  by code_simp

subsection \<open>Saving and reading back\<close>

text \<open>
  C5, as stated, fails for a path that does not end with \<^verbatim>\<open>.ipynb\<close>: \<^verbatim>\<open>save\<close>
  stores the notebook and raises, and \<^verbatim>\<open>get\<close> of the path raises
  \<^verbatim>\<open>HTTPError\<close> 400 instead of returning the document.
\<close>

theorem save_notes_counterexample:
  "save 2 example_host 5 empty_store (notebook_of ''n1'') ''notes''
     = (Inl (HTTPError 400 (Some ''bad type'')),
        \<lparr>fs = \<lparr>files = [\<lparr>file_id = 0, filename = ''notes'', data = ''n1''\<rparr>], next_oid = 1\<rparr>,
         checkpoints = []\<rparr>) \<and>
   get 2 example_host 6
     \<lparr>fs = \<lparr>files = [\<lparr>file_id = 0, filename = ''notes'', data = ''n1''\<rparr>], next_oid = 1\<rparr>,
      checkpoints = []\<rparr> ''notes'' True None
     = Inl (HTTPError 400 (Some ''bad type''))"
  by code_simp

text \<open>
  C5, amended. For every path whose stripped form ends with \<^verbatim>\<open>.ipynb\<close> and every
  notebook model whose content the codec decodes from its own sorted encoding, a successful
  \<^verbatim>\<open>save\<close> followed by \<^verbatim>\<open>get\<close> with content returns a notebook model of format
  \<^verbatim>\<open>json\<close> whose content is the saved document, as \<^verbatim>\<open>mark_trusted_cells\<close> leaves
  it. The ids of the bucket are those \<^verbatim>\<open>put\<close> handed out.
\<close>

theorem save_get_roundtrip:
  assumes "fresh_ids (fs s)"
    and "endswith (strip p) ''.ipynb''"
    and "sm_type model = Some ''notebook''" and "sm_content model = Some c"
    and "save d h now s model p = (Inr m, s')"
    and "Option.bind (dumps_sorted h (from_dict h c)) (nbformat_read h) = Some c"
  shows "\<exists>g. get (Suc d') h now' s' p True None = Inr g \<and>
             m_type g = Some ''notebook'' \<and> m_format g = Some ''json'' \<and>
             m_content g = CNotebook (mark_trusted_cells h c)"
proof -
  from save_notebook_Inr [OF assms(5) assms(3) assms(4)] obtain b where
    b: "dumps_sorted h (from_dict h c) = Some b" and fs': "fs s' = fs_put (fs s) b (strip p)"
    by blast
  from b assms(6) have rd: "nbformat_read h b = Some c" by simp
  from assms(2) have ne: "strip p \<noteq> []" by (rule endswith_nonempty)
  have ex: "exists_path s' p"
    using ne fs' fs_list_put [of "strip p" "fs s" b]
    by (simp add: exists_path_def file_exists_def Let_def)
  have rn: "read_notebook h s' (strip p) = Inr c"
    using assms(1) fs' rd by (rule read_notebook_put)
  have g: "get (Suc d') h now' s' p True None = notebook_model h now' s' (strip p) True"
    using ex ne assms(2) by (simp add: Let_def)
  show ?thesis
    unfolding g using rn
    by (simp add: notebook_model_def Let_def validate_notebook_model_def base_model_def
        set_type_def set_content_def set_format_def set_message_def split: option.splits)
qed

theorem save_get_roundtrip_witness:
  "\<exists>g. get 1 example_host 9
         (snd (save 2 example_host 7 two_versions (notebook_of ''n3'') ''/a.ipynb''))
         ''/a.ipynb'' True None = Inr g \<and>
       m_type g = Some ''notebook'' \<and> m_format g = Some ''json'' \<and>
       m_content g = CNotebook ''n3''"
proof -
  let ?s' = "snd (save 2 example_host 7 two_versions (notebook_of ''n3'') ''/a.ipynb'')"
  have h1: "fresh_ids (fs two_versions)" by code_simp
  have h2: "endswith (strip ''/a.ipynb'') ''.ipynb''" by code_simp
  have h3: "sm_type (notebook_of ''n3'') = Some ''notebook''"
    and h4: "sm_content (notebook_of ''n3'') = Some ''n3''"
    by (simp_all add: notebook_of_def)
  have h5: "save 2 example_host 7 two_versions (notebook_of ''n3'') ''/a.ipynb''
              = (Inr (Model ''a.ipynb'' ''a.ipynb'' 7 7 CNone None None True (Some ''notebook'')
                        None), ?s')"
    by code_simp
  have h6: "Option.bind (dumps_sorted example_host (from_dict example_host ''n3''))
              (nbformat_read example_host) = Some ''n3''"
    by (simp add: example_host_def)
  have m: "mark_trusted_cells example_host ''n3'' = ''n3''"
    by (simp add: example_host_def)
  from save_get_roundtrip [OF h1 h2 h3 h4 h5 h6, of 0 9] show ?thesis
    unfolding m by simp
qed

text \<open>
  C9. After two successful saves of notebooks at \<^verbatim>\<open>a.ipynb\<close> and \<^verbatim>\<open>b.ipynb\<close> into
  an empty bucket, both readable by the codec, the bucket lists exactly these two names and
  \<^verbatim>\<open>get\<close> of the root with content returns a model of type \<^verbatim>\<open>directory\<close> whose
  content is exactly two notebook models, one per listed name, named \<^verbatim>\<open>a.ipynb\<close> and
  \<^verbatim>\<open>b.ipynb\<close>.
\<close>

theorem root_lists_two_documents:
  assumes "files (fs s0) = []"
    and "sm_type ma = Some ''notebook''" and "sm_content ma = Some ca"
    and "sm_type mb = Some ''notebook''" and "sm_content mb = Some cb"
    and "save d1 h t1 s0 ma ''a.ipynb'' = (Inr ra, s1)"
    and "save d2 h t2 s1 mb ''b.ipynb'' = (Inr rb, s2)"
    and "Option.bind (dumps_sorted h (from_dict h ca)) (nbformat_read h) = Some na"
    and "Option.bind (dumps_sorted h (from_dict h cb)) (nbformat_read h) = Some nb"
  shows "fs_list (fs s2) = [''a.ipynb'', ''b.ipynb''] \<and>
         (\<exists>ea eb. get (Suc (Suc d)) h now s2 [] True None
                    = Inr (Model [] [] now now (CListing [ea, eb]) (Some ''json'') None True
                             (Some ''directory'') None) \<and>
                  m_name ea = ''a.ipynb'' \<and> m_type ea = Some ''notebook'' \<and>
                  m_name eb = ''b.ipynb'' \<and> m_type eb = Some ''notebook'')"
proof -
  have sa: "strip ''a.ipynb'' = ''a.ipynb''" and sb: "strip ''b.ipynb'' = ''b.ipynb''"
    by (simp_all add: strip_def)
  from save_notebook_Inr [OF assms(6) assms(2) assms(3)] obtain ba where
    ba: "dumps_sorted h (from_dict h ca) = Some ba"
    and fs1: "fs s1 = fs_put (fs s0) ba ''a.ipynb''"
    unfolding sa by blast
  from save_notebook_Inr [OF assms(7) assms(4) assms(5)] obtain bb where
    bb: "dumps_sorted h (from_dict h cb) = Some bb"
    and fs2: "fs s2 = fs_put (fs s1) bb ''b.ipynb''"
    unfolding sb by blast
  from ba assms(8) have ra: "nbformat_read h ba = Some na" by simp
  from bb assms(9) have rb: "nbformat_read h bb = Some nb" by simp
  define k where "k = next_oid (fs s0)"
  have files2: "files (fs s2) = [\<lparr>file_id = k, filename = ''a.ipynb'', data = ba\<rparr>,
                                 \<lparr>file_id = Suc k, filename = ''b.ipynb'', data = bb\<rparr>]"
    using assms(1) by (simp add: fs1 fs2 fs_put_def k_def)
  have l: "fs_list (fs s2) = [''a.ipynb'', ''b.ipynb'']"
    by (simp add: fs_list_def files2)
  have rna: "read_notebook h s2 ''a.ipynb'' = Inr na"
    by (simp add: read_notebook_def fs_get_last_version_def fs_get_version_def fs_versions_def
        fs_get_def files2 ra)
  have rnb: "read_notebook h s2 ''b.ipynb'' = Inr nb"
    by (simp add: read_notebook_def fs_get_last_version_def fs_get_version_def fs_versions_def
        fs_get_def files2 rb)
  from notebook_model_read [OF rna, of now] obtain ea where
    ea: "notebook_model h now s2 ''a.ipynb'' True = Inr ea"
        "m_name ea = rsplit_last ''a.ipynb''" "m_type ea = Some ''notebook''"
    by blast
  from notebook_model_read [OF rnb, of now] obtain eb where
    eb: "notebook_model h now s2 ''b.ipynb'' True = Inr eb"
        "m_name eb = rsplit_last ''b.ipynb''" "m_type eb = Some ''notebook''"
    by blast
  have ga: "get (Suc d) h now s2 ''a.ipynb'' True None = Inr ea"
    using ea(1) l
    by (simp add: Let_def sa exists_path_def file_exists_def endswith_def)
  have gb: "get (Suc d) h now s2 ''b.ipynb'' True None = Inr eb"
    using eb(1) l
    by (simp add: Let_def sb exists_path_def file_exists_def endswith_def)
  have root: "strip [] = []" "exists_path s2 []"
    by (simp_all add: strip_def exists_path_def dir_exists_def)
  have "get (Suc (Suc d)) h now s2 [] True None
          = Inr (Model [] [] now now (CListing [ea, eb]) (Some ''json'') None True
                   (Some ''directory'') None)"
    using root l ga gb
    by (simp add: Let_def base_model_def rsplit_last_def set_type_def set_content_def
        set_format_def)
  with l ea eb show ?thesis by (simp add: rsplit_last_def)
qed

theorem root_lists_two_documents_witness:
  "fs_list (fs (snd (save 2 example_host 6
                  (snd (save 2 example_host 5 empty_store (notebook_of ''n1'') ''a.ipynb''))
                  (notebook_of ''n2'') ''b.ipynb'')))
     = [''a.ipynb'', ''b.ipynb''] \<and>
   (\<exists>ea eb. get (Suc (Suc 0)) example_host 7
               (snd (save 2 example_host 6
                  (snd (save 2 example_host 5 empty_store (notebook_of ''n1'') ''a.ipynb''))
                  (notebook_of ''n2'') ''b.ipynb'')) [] True None
               = Inr (Model [] [] 7 7 (CListing [ea, eb]) (Some ''json'') None True
                        (Some ''directory'') None) \<and>
             m_name ea = ''a.ipynb'' \<and> m_type ea = Some ''notebook'' \<and>
             m_name eb = ''b.ipynb'' \<and> m_type eb = Some ''notebook'')"
proof -
  let ?s1 = "snd (save 2 example_host 5 empty_store (notebook_of ''n1'') ''a.ipynb'')"
  let ?s2 = "snd (save 2 example_host 6 ?s1 (notebook_of ''n2'') ''b.ipynb'')"
  have h1: "files (fs empty_store) = []" by (simp add: empty_store_def)
  have t: "sm_type (notebook_of ''n1'') = Some ''notebook''"
          "sm_content (notebook_of ''n1'') = Some ''n1''"
          "sm_type (notebook_of ''n2'') = Some ''notebook''"
          "sm_content (notebook_of ''n2'') = Some ''n2''"
    by (simp_all add: notebook_of_def)
  have s1: "save 2 example_host 5 empty_store (notebook_of ''n1'') ''a.ipynb''
              = (Inr (Model ''a.ipynb'' ''a.ipynb'' 5 5 CNone None None True (Some ''notebook'')
                        None), ?s1)"
    by code_simp
  have s2: "save 2 example_host 6 ?s1 (notebook_of ''n2'') ''b.ipynb''
              = (Inr (Model ''b.ipynb'' ''b.ipynb'' 6 6 CNone None None True (Some ''notebook'')
                        None), ?s2)"
    by code_simp
  have c1: "Option.bind (dumps_sorted example_host (from_dict example_host ''n1''))
              (nbformat_read example_host) = Some ''n1''"
    and c2: "Option.bind (dumps_sorted example_host (from_dict example_host ''n2''))
              (nbformat_read example_host) = Some ''n2''"
    by (simp_all add: example_host_def)
  from root_lists_two_documents [OF h1 t(1) t(2) t(3) t(4) s1 s2 c1 c2, of 0 7]
  show ?thesis .
qed

end
